theory Spec2Isabelle
  imports Main "HOL-Library.Word"
begin

section \<open>The streaming upload pipeline (StreamingService.ts)\<close>

text \<open>
  The class \<open>StreamingService\<close> keeps four private fields: \<open>currentSession\<close>,
  \<open>isStreaming\<close>, \<open>chunkQueue\<close> and \<open>uploadInterval\<close>. Each method is embedded as a
  function from the state before to the state after. What the outside world decides
  (the clock, the answer of the backend, the outcome of every upload) is an argument of
  the function. The HTTP requests a method issues are appended to the trace field
  \<open>requests\<close>, which is not a field of the class but the record of its effect on the
  backend.

  Every asynchronous method is embedded as running to completion: a flush is one step,
  and no other operation runs between its uploads. The flush that \<open>stopChunkUploader\<close>
  starts without awaiting it is embedded as finishing before the caller goes on, which
  for \<open>endSession\<close> is the schedule in which all uploads of the terminal flush settle
  before the answer to the end-session request arrives. The trace lists the requests in
  the order in which this schedule runs them.
\<close>

subsection \<open>Data\<close>

datatype chunk_kind = audio | video

type_synonym Uint8Array = "8 word list"

record StreamSession =
  session_id :: string
  device_id :: string
  started_at :: string
  is_active :: bool

record StreamChunk =
  chunk_type :: chunk_kind
  chunk_data :: Uint8Array
  chunk_timestamp :: nat
  chunk_session_id :: string

text \<open>
  A request to the backend: \<open>makeRequest\<close> on \<open>/streams/start-session/{deviceId}\<close>,
  \<open>makeRequest\<close> on \<open>/streams/end-session/{sessionId}\<close>, and the \<open>fetch\<close> on
  \<open>/streams/upload-chunk/{sessionId}\<close> whose body is one chunk.
\<close>

datatype request =
    StartSessionReq string
  | EndSessionReq string
  | UploadChunkReq string StreamChunk

text \<open>What a rejected promise carries: the request of a session call, or one upload.\<close>

datatype rejection = RequestFailed | UploadFailed

text \<open>
  The ways one call of \<open>uploadSingleChunk\<close> can go once a session is current:
  \<open>RNFS.writeFile\<close> rejects, \<open>fetch\<close> rejects, the response is not ok,
  \<open>RNFS.unlink\<close> rejects, or everything succeeds.
\<close>

datatype upload_outcome = WriteFileFails | FetchFails | ResponseNotOk | UnlinkFails | UploadOk

record StreamingService =
  currentSession :: "StreamSession option"
  isStreaming :: bool
  chunkQueue :: "StreamChunk list"
  uploadInterval :: "nat option"
  requests :: "request list"

text \<open>The field initialisers of the class; no request has been issued.\<close>

definition initial :: StreamingService where
  "initial = \<lparr>currentSession = None, isStreaming = False, chunkQueue = [],
     uploadInterval = None, requests = []\<rparr>"

subsection \<open>Methods\<close>

text \<open>\<open>setInterval(..., 2000)\<close>: the armed timer is represented by its period.\<close>

definition startChunkUploader :: "StreamingService \<Rightarrow> StreamingService" where
  "startChunkUploader st = st\<lparr>uploadInterval := Some 2000\<rparr>"

text \<open>
  \<open>startSession(deviceId)\<close>: \<open>resp\<close> is the answer of the backend (the new session id, or
  the rejection of \<open>makeRequest\<close>), \<open>now\<close> the ISO time string of the clock.
\<close>

definition startSession ::
  "string \<Rightarrow> rejection + string \<Rightarrow> string \<Rightarrow> StreamingService \<Rightarrow>
     (rejection + StreamSession) \<times> StreamingService" where
  "startSession deviceId resp now st =
     (let st1 = st\<lparr>requests := requests st @ [StartSessionReq deviceId]\<rparr> in
      case resp of
        Inl e \<Rightarrow> (Inl e, st1)
      | Inr sid \<Rightarrow>
          (let s = \<lparr>session_id = sid, device_id = deviceId, started_at = now,
                     is_active = True\<rparr>;
               st2 = startChunkUploader (st1\<lparr>currentSession := Some s, isStreaming := True\<rparr>)
           in (Inr s, st2)))"

text \<open>
  \<open>uploadChunk(chunkType, data)\<close>: \<open>now\<close> is \<open>Date.now()\<close>. The chunk is pushed, and
  one chunk is shifted off the front when the queue has grown beyond 50.
\<close>

definition uploadChunk ::
  "chunk_kind \<Rightarrow> Uint8Array \<Rightarrow> nat \<Rightarrow> StreamingService \<Rightarrow> StreamingService" where
  "uploadChunk chunkType data now st =
     (case currentSession st of
        None \<Rightarrow> st
      | Some s \<Rightarrow>
          if \<not> isStreaming st then st
          else
            (let chunk = \<lparr>chunk_type = chunkType, chunk_data = data, chunk_timestamp = now,
                           chunk_session_id = session_id s\<rparr>;
                 q = chunkQueue st @ [chunk]
             in st\<lparr>chunkQueue := (if length q > 50 then tl q else q)\<rparr>))"

text \<open>
  \<open>uploadSingleChunk(chunk)\<close>: returns at once when no session is current; otherwise the
  request is addressed to the session that is current now. The request is issued unless
  writing the temporary file already failed, and the call throws unless every step
  succeeded.
\<close>

definition uploadSingleChunk ::
  "StreamChunk \<Rightarrow> upload_outcome \<Rightarrow> StreamingService \<Rightarrow> (rejection + unit) \<times> StreamingService" where
  "uploadSingleChunk chunk outcome st =
     (case currentSession st of
        None \<Rightarrow> (Inr (), st)
      | Some s \<Rightarrow>
          (let issued = st\<lparr>requests := requests st @ [UploadChunkReq (session_id s) chunk]\<rparr> in
           case outcome of
             WriteFileFails \<Rightarrow> (Inl UploadFailed, st)
           | FetchFails \<Rightarrow> (Inl UploadFailed, issued)
           | ResponseNotOk \<Rightarrow> (Inl UploadFailed, issued)
           | UnlinkFails \<Rightarrow> (Inl UploadFailed, issued)
           | UploadOk \<Rightarrow> (Inr (), issued)))"

text \<open>
  The \<open>for\<close> loop of \<open>processChunkQueue\<close> over the spliced batch. \<open>env i\<close> is the
  outcome of the \<open>i\<close>-th upload of the loop. The \<open>catch\<close> puts the failed chunk back at the
  front when the queue is shorter than 30.
\<close>

fun upload_loop ::
  "StreamChunk list \<Rightarrow> (nat \<Rightarrow> upload_outcome) \<Rightarrow> StreamingService \<Rightarrow> StreamingService" where
  "upload_loop [] env st = st"
| "upload_loop (chunk # chunks) env st =
     (case uploadSingleChunk chunk (env 0) st of
        (Inr _, st1) \<Rightarrow> upload_loop chunks (\<lambda>i. env (Suc i)) st1
      | (Inl _, st1) \<Rightarrow>
          upload_loop chunks (\<lambda>i. env (Suc i))
            (if length (chunkQueue st1) < 30
             then st1\<lparr>chunkQueue := chunk # chunkQueue st1\<rparr>
             else st1))"

text \<open>\<open>processChunkQueue()\<close>: \<open>splice(0, 10)\<close> takes the batch out of the queue.\<close>

definition processChunkQueue ::
  "(nat \<Rightarrow> upload_outcome) \<Rightarrow> StreamingService \<Rightarrow> StreamingService" where
  "processChunkQueue env st =
     (if chunkQueue st = [] \<or> currentSession st = None then st
      else
        (let chunksToUpload = take 10 (chunkQueue st) in
         upload_loop chunksToUpload env (st\<lparr>chunkQueue := drop 10 (chunkQueue st)\<rparr>)))"

definition stopChunkUploader ::
  "(nat \<Rightarrow> upload_outcome) \<Rightarrow> StreamingService \<Rightarrow> StreamingService" where
  "stopChunkUploader env st = processChunkQueue env (st\<lparr>uploadInterval := None\<rparr>)"

text \<open>
  \<open>endSession()\<close>: \<open>ended\<close> tells whether the end-session request succeeds, \<open>env\<close> gives
  the outcomes of the uploads of the terminal flush. A rejected request is thrown again
  by the \<open>catch\<close>, and the assignment \<open>currentSession = null\<close> is then not reached.
\<close>

definition endSession ::
  "bool \<Rightarrow> (nat \<Rightarrow> upload_outcome) \<Rightarrow> StreamingService \<Rightarrow> (rejection + unit) \<times> StreamingService" where
  "endSession ended env st =
     (case currentSession st of
        None \<Rightarrow> (Inr (), st)
      | Some s \<Rightarrow>
          (let st1 = stopChunkUploader env (st\<lparr>isStreaming := False\<rparr>);
               st2 = st1\<lparr>requests := requests st1 @ [EndSessionReq (session_id s)]\<rparr>
           in if ended then (Inr (), st2\<lparr>currentSession := None\<rparr>)
              else (Inl RequestFailed, st2)))"


definition getQueueSize :: "StreamingService \<Rightarrow> nat" where
  "getQueueSize st = length (chunkQueue st)"

definition cleanup :: "(nat \<Rightarrow> upload_outcome) \<Rightarrow> StreamingService \<Rightarrow> StreamingService" where
  "cleanup env st =
     (stopChunkUploader env st)\<lparr>chunkQueue := [], currentSession := None, isStreaming := False\<rparr>"


subsection \<open>Operations of the pipeline as events\<close>

text \<open>
  What the host application and the flush timer can do to the pipeline, each with what
  the outside world decides during it: the public methods, and the timer callback
  \<open>FlushTick\<close>, which calls \<open>processChunkQueue\<close>.
\<close>

datatype operation =
    StartSession string "rejection + string" string
  | EndSession bool "nat \<Rightarrow> upload_outcome"
  | UploadChunk chunk_kind Uint8Array nat
  | FlushTick "nat \<Rightarrow> upload_outcome"
  | Cleanup "nat \<Rightarrow> upload_outcome"

fun perform :: "operation \<Rightarrow> StreamingService \<Rightarrow> StreamingService" where
  "perform (StartSession deviceId resp now) st = snd (startSession deviceId resp now st)"
| "perform (EndSession ended env) st = snd (endSession ended env st)"
| "perform (UploadChunk chunkType data now) st = uploadChunk chunkType data now st"
| "perform (FlushTick env) st = processChunkQueue env st"
| "perform (Cleanup env) st = cleanup env st"

fun run :: "operation list \<Rightarrow> StreamingService \<Rightarrow> StreamingService" where
  "run [] st = st"
| "run (op # ops) st = run ops (perform op st)"

text \<open>
  The chunk that \<open>uploadChunk\<close> builds from a submission under session \<open>s\<close>, and a
  series of submissions with nothing else in between.
\<close>

definition stamp :: "StreamSession \<Rightarrow> chunk_kind \<times> Uint8Array \<times> nat \<Rightarrow> StreamChunk" where
  "stamp s sub = (case sub of (k, d, t) \<Rightarrow>
     \<lparr>chunk_type = k, chunk_data = d, chunk_timestamp = t, chunk_session_id = session_id s\<rparr>)"

fun submit_all ::
  "(chunk_kind \<times> Uint8Array \<times> nat) list \<Rightarrow> StreamingService \<Rightarrow> StreamingService" where
  "submit_all [] st = st"
| "submit_all ((k, d, t) # subs) st = submit_all subs (uploadChunk k d t st)"


section \<open>The connection manager (WebSocketService.tsx)\<close>

text \<open>
  The component \<open>WebSocketProvider\<close> keeps the React state \<open>isConnected\<close> and
  \<open>connectionStatus\<close>, the refs \<open>wsRef\<close>, \<open>reconnectTimeoutRef\<close>,
  \<open>reconnectAttemptsRef\<close> and \<open>appStateRef\<close>, and reads \<open>user\<close> and \<open>token\<close> from the
  authentication context. Of the socket in \<open>wsRef\<close> only its \<open>readyState\<close> is read, so
  \<open>wsRef\<close> is the ready state of the current socket, or \<open>None\<close> for \<open>null\<close>. Of the
  timer in \<open>reconnectTimeoutRef\<close> the delay it was created with is kept.

  Three trace fields record the effects on the outside: \<open>sent\<close>, the frames handed to
  \<open>WebSocket.send\<close>; \<open>scheduled\<close>, the delays handed to \<open>setTimeout\<close> by
  \<open>scheduleReconnect\<close>; \<open>warnings\<close>, the message types printed by \<open>console.warn\<close>.
  The other console output, \<open>lastMessage\<close> and the dispatch of inbound messages are not
  embedded.
\<close>

subsection \<open>Data\<close>

datatype readyState = CONNECTING | OPEN | CLOSING | CLOSED

datatype status = connecting | connected | disconnected | error

datatype AppStateStatus = active | background | inactive | unknown | extension

text \<open>The two fields of \<open>User\<close> that the component reads.\<close>

record User =
  user_id :: string
  deviceId :: "string option"

text \<open>\<open>WebSocketMessage\<close>; the payload \<open>data\<close> is opaque, an object of string fields here.\<close>

record WebSocketMessage =
  msg_type :: string
  msg_data :: "(string \<times> string) list option"
  msg_timestamp :: "nat option"
  msg_device_id :: "string option"

record WebSocketProvider =
  isConnected :: bool
  connectionStatus :: status
  wsRef :: "readyState option"
  reconnectTimeoutRef :: "nat option"
  reconnectAttemptsRef :: nat
  appStateRef :: AppStateStatus
  user :: "User option"
  token :: "string option"
  sent :: "WebSocketMessage list"
  scheduled :: "nat list"
  warnings :: "string list"

definition RECONNECT_INTERVAL :: nat where
  "RECONNECT_INTERVAL = 5000"

definition MAX_RECONNECT_ATTEMPTS :: nat where
  "MAX_RECONNECT_ATTEMPTS = 10"

text \<open>The component as mounted: the initial values of the state hooks and refs.\<close>

definition mounted :: "User option \<Rightarrow> string option \<Rightarrow> AppStateStatus \<Rightarrow> WebSocketProvider" where
  "mounted u t app = \<lparr>isConnected = False, connectionStatus = disconnected, wsRef = None,
     reconnectTimeoutRef = None, reconnectAttemptsRef = 0, appStateRef = app,
     user = u, token = t, sent = [], scheduled = [], warnings = []\<rparr>"

subsection \<open>JavaScript truthiness\<close>

text \<open>\<open>a || b\<close> on optional strings: \<open>undefined\<close> and the empty string are falsy.\<close>

definition js_or :: "string option \<Rightarrow> string option \<Rightarrow> string option" where
  "js_or a b = (case a of None \<Rightarrow> b | Some x \<Rightarrow> if x = [] then b else a)"

text \<open>\<open>!user || !token\<close>: an object is truthy, the empty token is not.\<close>

definition no_identity :: "WebSocketProvider \<Rightarrow> bool" where
  "no_identity st = (user st = None \<or> token st = None \<or> token st = Some [])"

subsection \<open>Functions of the component\<close>

text \<open>
  \<open>sendMessage(message)\<close>: \<open>now\<close> is \<open>Date.now()\<close>; \<open>accepted\<close> tells whether
  \<open>JSON.stringify\<close> and \<open>send\<close> return (an exception from them is caught and logged).
  A timestamp of 0 is falsy and is replaced as an absent one is.
\<close>

definition sendMessage ::
  "WebSocketMessage \<Rightarrow> nat \<Rightarrow> bool \<Rightarrow> WebSocketProvider \<Rightarrow> WebSocketProvider" where
  "sendMessage message now accepted st =
     (if wsRef st = Some OPEN then
        (let messageWithTimestamp = message\<lparr>
               msg_timestamp :=
                 (case msg_timestamp message of
                    None \<Rightarrow> Some now
                  | Some t \<Rightarrow> if t = 0 then Some now else Some t),
               msg_device_id :=
                 js_or (msg_device_id message)
                   (case user st of
                      None \<Rightarrow> None
                    | Some u \<Rightarrow> js_or (deviceId u) (Some (user_id u)))\<rparr>
         in if accepted then st\<lparr>sent := sent st @ [messageWithTimestamp]\<rparr> else st)
      else st\<lparr>warnings := warnings st @ [msg_type message]\<rparr>)"

text \<open>
  \<open>scheduleReconnect()\<close>: a pending timer is cleared by being replaced; the attempt
  counter is incremented before the delay is computed.
\<close>

definition scheduleReconnect :: "WebSocketProvider \<Rightarrow> WebSocketProvider" where
  "scheduleReconnect st =
     (let attempts = reconnectAttemptsRef st + 1;
          delay = min (RECONNECT_INTERVAL * attempts) 30000
      in st\<lparr>reconnectAttemptsRef := attempts, reconnectTimeoutRef := Some delay,
            scheduled := scheduled st @ [delay]\<rparr>)"

text \<open>
  \<open>connect()\<close>: \<open>created\<close> tells whether \<open>new WebSocket(wsUrl)\<close> returns; when it
  throws, the \<open>catch\<close> sets the status and schedules a reconnect, and \<open>wsRef\<close> keeps its
  old value.
\<close>

definition connect :: "bool \<Rightarrow> WebSocketProvider \<Rightarrow> WebSocketProvider" where
  "connect created st =
     (if no_identity st then st
      else if wsRef st = Some CONNECTING \<or> wsRef st = Some OPEN then st
      else if created then st\<lparr>connectionStatus := connecting, wsRef := Some CONNECTING\<rparr>
      else scheduleReconnect (st\<lparr>connectionStatus := error\<rparr>))"

text \<open>The handlers that \<open>connect\<close> installs on the socket.\<close>

definition device_info :: "User \<Rightarrow> WebSocketMessage" where
  "device_info u =
     (let dev = (case js_or (deviceId u) (Some (user_id u)) of None \<Rightarrow> [] | Some d \<Rightarrow> d)
      in \<lparr>msg_type = ''device_info'',
          msg_data = Some [(''device_id'', dev), (''user_id'', user_id u),
                           (''platform'', ''mobile''), (''app_version'', ''1.0.0'')],
          msg_timestamp = None, msg_device_id = None\<rparr>)"

definition onopen :: "nat \<Rightarrow> bool \<Rightarrow> WebSocketProvider \<Rightarrow> WebSocketProvider" where
  "onopen now accepted st =
     (let st1 = st\<lparr>isConnected := True, connectionStatus := connected,
                   reconnectAttemptsRef := 0\<rparr>
      in case user st1 of
           None \<Rightarrow> st1
         | Some u \<Rightarrow> sendMessage (device_info u) now accepted st1)"

definition onclose :: "nat \<Rightarrow> WebSocketProvider \<Rightarrow> WebSocketProvider" where
  "onclose code st =
     (let st1 = st\<lparr>isConnected := False, connectionStatus := disconnected\<rparr>
      in if code \<noteq> 1000 \<and> reconnectAttemptsRef st1 < MAX_RECONNECT_ATTEMPTS
         then scheduleReconnect st1 else st1)"

definition onerror :: "WebSocketProvider \<Rightarrow> WebSocketProvider" where
  "onerror st = st\<lparr>connectionStatus := error\<rparr>"

text \<open>\<open>disconnect()\<close>: the socket, if any, is closed with code 1000 and dropped.\<close>

definition disconnect :: "WebSocketProvider \<Rightarrow> WebSocketProvider" where
  "disconnect st = st\<lparr>reconnectTimeoutRef := None, wsRef := None, isConnected := False,
     connectionStatus := disconnected\<rparr>"

text \<open>The callback of the timer that \<open>scheduleReconnect\<close> sets.\<close>

definition reconnect_timeout :: "bool \<Rightarrow> WebSocketProvider \<Rightarrow> WebSocketProvider" where
  "reconnect_timeout created st = (if appStateRef st = active then connect created st else st)"

definition handleAppStateChange ::
  "AppStateStatus \<Rightarrow> bool \<Rightarrow> WebSocketProvider \<Rightarrow> WebSocketProvider" where
  "handleAppStateChange nextAppState created st =
     (let st1 = st\<lparr>appStateRef := nextAppState\<rparr>
      in if nextAppState = active then
           (if \<not> isConnected st1 \<and> \<not> no_identity st1 then connect created st1 else st1)
         else if nextAppState = background \<or> nextAppState = inactive then
           st1\<lparr>reconnectTimeoutRef := None\<rparr>
         else st1)"

subsection \<open>Events of the component\<close>

text \<open>
  What can happen to the component: a call of \<open>connect\<close> (by an effect, or by the
  timeout of \<open>reconnect\<close>), a call of \<open>disconnect\<close>, an event of the socket in \<open>wsRef\<close>,
  the reconnect timer firing, a call of \<open>sendMessage\<close>, a change of the application
  state. The platform's part of a socket event is done before the handler runs: a socket
  opens only while it is connecting and is then open; a socket whose connection
  fails or closes is closed when \<open>onerror\<close> or \<open>onclose\<close> runs. After \<open>disconnect\<close> the
  close event of the dropped socket finds \<open>wsRef\<close> empty.
\<close>

datatype ws_event =
    Connect bool
  | Disconnect
  | SocketOpen nat bool
  | SocketClose nat
  | SocketError
  | ReconnectTimeout bool
  | SendMessage WebSocketMessage nat bool
  | AppStateChange AppStateStatus bool

definition socket_closed :: "WebSocketProvider \<Rightarrow> WebSocketProvider" where
  "socket_closed st = st\<lparr>wsRef := map_option (\<lambda>r. CLOSED) (wsRef st)\<rparr>"

fun ws_step :: "ws_event \<Rightarrow> WebSocketProvider \<Rightarrow> WebSocketProvider" where
  "ws_step (Connect created) st = connect created st"
| "ws_step Disconnect st = disconnect st"
| "ws_step (SocketOpen now accepted) st =
     (if wsRef st = Some CONNECTING then onopen now accepted (st\<lparr>wsRef := Some OPEN\<rparr>) else st)"
| "ws_step (SocketClose code) st = onclose code (socket_closed st)"
| "ws_step SocketError st = onerror (socket_closed st)"
| "ws_step (ReconnectTimeout created) st = reconnect_timeout created st"
| "ws_step (SendMessage message now accepted) st = sendMessage message now accepted st"
| "ws_step (AppStateChange nextAppState created) st = handleAppStateChange nextAppState created st"

fun ws_run :: "ws_event list \<Rightarrow> WebSocketProvider \<Rightarrow> WebSocketProvider" where
  "ws_run [] st = st"
| "ws_run (e # es) st = ws_run es (ws_step e st)"

text \<open>
  \<open>n\<close> failed connection attempts in a row: the socket closes with \<open>code\<close>, the reconnect
  timer fires and \<open>connect\<close> opens the next socket.
\<close>

fun failed_attempts :: "nat \<Rightarrow> nat \<Rightarrow> ws_event list" where
  "failed_attempts 0 code = []"
| "failed_attempts (Suc n) code = SocketClose code # ReconnectTimeout True # failed_attempts n code"



section \<open>Scenarios\<close>

text \<open>Concrete inputs on which the definitions are evaluated.\<close>

definition all_ok :: "nat \<Rightarrow> upload_outcome" where
  "all_ok i = UploadOk"

definition all_fail :: "nat \<Rightarrow> upload_outcome" where
  "all_fail i = ResponseNotOk"

definition chunk_at :: "nat \<Rightarrow> StreamChunk" where
  "chunk_at t = \<lparr>chunk_type = audio, chunk_data = [], chunk_timestamp = t,
     chunk_session_id = ''s1''\<rparr>"

definition session_one :: StreamSession where
  "session_one = \<lparr>session_id = ''s1'', device_id = ''dev'', started_at = ''t0'',
     is_active = True\<rparr>"

definition session_two :: StreamSession where
  "session_two = \<lparr>session_id = ''s2'', device_id = ''dev'', started_at = ''t9'',
     is_active = True\<rparr>"

text \<open>A session \<open>s1\<close> is started and \<open>n\<close> audio chunks are submitted at times 1 to \<open>n\<close>.\<close>

definition capture :: "nat \<Rightarrow> operation list" where
  "capture n = StartSession ''dev'' (Inr ''s1'') ''t0'' # map (UploadChunk audio []) [1..<Suc n]"

text \<open>Sixty submissions, at times 1 to 60.\<close>

definition sixty :: "(chunk_kind \<times> Uint8Array \<times> nat) list" where
  "sixty = map (\<lambda>t. (audio, [], t)) [1..<61]"

definition parent :: User where
  "parent = \<lparr>user_id = ''u1'', deviceId = Some ''d1''\<rparr>"


text \<open>The component with an identity, in the foreground, after its socket has opened.\<close>

definition online :: WebSocketProvider where
  "online = ws_run [Connect True, SocketOpen 7 True] (mounted (Some parent) (Some ''tok'') active)"



section \<open>Properties of the streaming upload pipeline\<close>

subsection \<open>What the flush leaves untouched\<close>

lemma uploadSingleChunk_fields:
  "uploadSingleChunk c out st = (r, st') \<Longrightarrow>
     chunkQueue st' = chunkQueue st \<and> currentSession st' = currentSession st \<and>
     isStreaming st' = isStreaming st \<and> uploadInterval st' = uploadInterval st"
  by (auto simp: uploadSingleChunk_def Let_def split: option.splits upload_outcome.splits)




subsection \<open>The bound on the queue\<close>

text \<open>The loop puts a chunk back only below 30, so it never lifts the queue above 30.\<close>

lemma upload_loop_length:
  "length (chunkQueue (upload_loop cs env st)) \<le> max (length (chunkQueue st)) 30"
proof (induction cs arbitrary: env st)
  case Nil
  show ?case by simp
next
  case (Cons c cs)
  obtain r st1 where u: "uploadSingleChunk c (env 0) st = (r, st1)"
    by (cases "uploadSingleChunk c (env 0) st")
  have q: "chunkQueue st1 = chunkQueue st"
    using uploadSingleChunk_fields [OF u] by simp
  show ?case
  proof (cases r)
    case (Inr x)
    then show ?thesis
      using Cons.IH [of "\<lambda>i. env (Suc i)" st1] by (simp add: u q)
  next
    case (Inl e)
    show ?thesis
    proof (cases "length (chunkQueue st1) < 30")
      case True
      then show ?thesis
        using Cons.IH [of "\<lambda>i. env (Suc i)" "st1\<lparr>chunkQueue := c # chunkQueue st1\<rparr>"] Inl
        by (simp add: u q)
    next
      case False
      then show ?thesis
        using Cons.IH [of "\<lambda>i. env (Suc i)" st1] Inl by (simp add: u q)
    qed
  qed
qed

lemma processChunkQueue_length:
  assumes "length (chunkQueue st) \<le> 50"
  shows "length (chunkQueue (processChunkQueue env st)) \<le> 50"
proof -
  let ?rest = "st\<lparr>chunkQueue := drop 10 (chunkQueue st)\<rparr>"
  have "length (chunkQueue (upload_loop (take 10 (chunkQueue st)) env ?rest))
          \<le> max (length (drop 10 (chunkQueue st))) 30"
    using upload_loop_length [of "take 10 (chunkQueue st)" env ?rest] by simp
  with assms show ?thesis
    by (auto simp: processChunkQueue_def Let_def)
qed

lemma uploadChunk_length:
  "length (chunkQueue st) \<le> 50 \<Longrightarrow> length (chunkQueue (uploadChunk k d t st)) \<le> 50"
  by (auto simp: uploadChunk_def Let_def split: option.splits)

lemma startSession_queue: "chunkQueue (snd (startSession dev resp now st)) = chunkQueue st"
  by (simp add: startSession_def startChunkUploader_def Let_def split: sum.splits)

lemma endSession_length:
  "length (chunkQueue st) \<le> 50 \<Longrightarrow> length (chunkQueue (snd (endSession ended env st))) \<le> 50"
  using processChunkQueue_length [of "st\<lparr>isStreaming := False, uploadInterval := None\<rparr>" env]
  by (simp add: endSession_def stopChunkUploader_def Let_def split: option.splits)

lemma perform_length:
  "length (chunkQueue st) \<le> 50 \<Longrightarrow> length (chunkQueue (perform op st)) \<le> 50"
  by (cases op)
     (simp_all add: startSession_queue endSession_length uploadChunk_length
        processChunkQueue_length cleanup_def)

lemma run_length:
  "length (chunkQueue st) \<le> 50 \<Longrightarrow> length (chunkQueue (run ops st)) \<le> 50"
  by (induction ops arbitrary: st) (simp_all add: perform_length)

subsection \<open>Submissions keep the newest 50\<close>

lemma uploadChunk_active:
  assumes "currentSession st = Some s" and "isStreaming st"
  shows "uploadChunk k d t st =
     st\<lparr>chunkQueue := (if length (chunkQueue st) < 50 then chunkQueue st @ [stamp s (k, d, t)]
                        else tl (chunkQueue st @ [stamp s (k, d, t)]))\<rparr>"
  using assms by (simp add: uploadChunk_def stamp_def Let_def)

lemma keep_last_50:
  assumes "length q \<le> 50"
  shows "drop (length ((if length q < 50 then q @ [c] else tl (q @ [c])) @ r) - 50)
            ((if length q < 50 then q @ [c] else tl (q @ [c])) @ r)
         = drop (length (q @ c # r) - 50) (q @ c # r)"
proof (cases "length q < 50")
  case True
  then show ?thesis by simp
next
  case False
  with assms have l: "length q = 50" by simp
  then obtain x q' where q: "q = x # q'" by (cases q) auto
  with l have l': "length q' = 49" by simp
  show ?thesis using l' by (simp add: q)
qed

lemma submit_all_queue:
  assumes "currentSession st = Some s" and "isStreaming st" and "length (chunkQueue st) \<le> 50"
  shows "chunkQueue (submit_all subs st) =
     drop (length (chunkQueue st @ map (stamp s) subs) - 50) (chunkQueue st @ map (stamp s) subs)"
  using assms
proof (induction subs arbitrary: st)
  case Nil
  then show ?case by simp
next
  case (Cons sub subs)
  obtain k d t where sub: "sub = (k, d, t)" by (cases sub) auto
  let ?c = "stamp s (k, d, t)"
  let ?st = "uploadChunk k d t st"
  have u: "?st = st\<lparr>chunkQueue := (if length (chunkQueue st) < 50 then chunkQueue st @ [?c]
                        else tl (chunkQueue st @ [?c]))\<rparr>"
    using Cons.prems by (simp add: uploadChunk_active)
  have 1: "currentSession ?st = Some s" and 2: "isStreaming ?st"
    using Cons.prems by (simp_all add: u)
  have 3: "length (chunkQueue ?st) \<le> 50"
    using Cons.prems by (simp add: uploadChunk_length)
  have "chunkQueue (submit_all (sub # subs) st) = chunkQueue (submit_all subs ?st)"
    by (simp add: sub)
  also have "\<dots> = drop (length (chunkQueue ?st @ map (stamp s) subs) - 50)
                      (chunkQueue ?st @ map (stamp s) subs)"
    by (rule Cons.IH [OF 1 2 3])
  also have "\<dots> = drop (length (chunkQueue st @ ?c # map (stamp s) subs) - 50)
                      (chunkQueue st @ ?c # map (stamp s) subs)"
  proof -
    have q': "chunkQueue ?st = (if length (chunkQueue st) < 50 then chunkQueue st @ [?c]
                        else tl (chunkQueue st @ [?c]))"
      by (simp add: u)
    show ?thesis
      unfolding q' by (rule keep_last_50 [OF Cons.prems(3)])
  qed
  finally show ?case by (simp add: sub)
qed

text \<open>
  C5: the queue never holds more than 50 chunks, whatever operations are performed, from
  the freshly built service and from any state within the bound; a submission to a queue
  of 50 drops the oldest chunk and appends the new one; 60 submissions to an empty queue
  leave the 50 submitted last, in order.
\<close>

theorem chunkQueue_bounded:
  "length (chunkQueue (run ops initial)) \<le> 50 \<and>
   (length (chunkQueue st0) \<le> 50 \<longrightarrow> length (chunkQueue (perform op st0)) \<le> 50) \<and>
   (currentSession st1 = Some s1 \<and> isStreaming st1 \<and> length (chunkQueue st1) = 50 \<longrightarrow>
      chunkQueue (uploadChunk k d t st1) = tl (chunkQueue st1) @ [stamp s1 (k, d, t)]) \<and>
   (currentSession st2 = Some s2 \<and> isStreaming st2 \<and> chunkQueue st2 = [] \<and> length subs = 60 \<longrightarrow>
      chunkQueue (submit_all subs st2) = drop 10 (map (stamp s2) subs))"
proof (intro conjI impI)
  show "length (chunkQueue (run ops initial)) \<le> 50"
    by (rule run_length) (simp add: initial_def)
next
  assume "length (chunkQueue st0) \<le> 50"
  then show "length (chunkQueue (perform op st0)) \<le> 50" by (rule perform_length)
next
  assume a: "currentSession st1 = Some s1 \<and> isStreaming st1 \<and> length (chunkQueue st1) = 50"
  then have "chunkQueue st1 \<noteq> []" by auto
  with a show "chunkQueue (uploadChunk k d t st1) = tl (chunkQueue st1) @ [stamp s1 (k, d, t)]"
    by (simp add: uploadChunk_active)
next
  assume "currentSession st2 = Some s2 \<and> isStreaming st2 \<and> chunkQueue st2 = [] \<and> length subs = 60"
  then show "chunkQueue (submit_all subs st2) = drop 10 (map (stamp s2) subs)"
    using submit_all_queue [of st2 s2 subs] by simp
qed


lemma capture_50:
  "currentSession (run (capture 50) initial) = Some session_one \<and>
   isStreaming (run (capture 50) initial) \<and>
   length (chunkQueue (run (capture 50) initial)) = 50"
  by code_simp

lemma capture_0:
  "currentSession (run (capture 0) initial) = Some session_one \<and>
   isStreaming (run (capture 0) initial) \<and>
   chunkQueue (run (capture 0) initial) = [] \<and> length sixty = 60"
  by code_simp

theorem chunkQueue_bounded_witness:
  "length (chunkQueue (run (capture 60) initial)) \<le> 50 \<and>
   length (chunkQueue (run (capture 50) initial)) = 50 \<and>
   length (chunkQueue (perform (FlushTick all_fail) (run (capture 50) initial))) \<le> 50 \<and>
   chunkQueue (uploadChunk video [] 51 (run (capture 50) initial)) =
     tl (chunkQueue (run (capture 50) initial)) @ [stamp session_one (video, [], 51)] \<and>
   length sixty = 60 \<and>
   chunkQueue (submit_all sixty (run (capture 0) initial)) = drop 10 (map (stamp session_one) sixty)"
proof -
  note t = chunkQueue_bounded [of "capture 60" "run (capture 50) initial" "FlushTick all_fail"
      "run (capture 50) initial" session_one video "[]" 51
      "run (capture 0) initial" session_one sixty]
  have b: "length (chunkQueue (run (capture 50) initial)) \<le> 50"
    using capture_50 by simp
  from t capture_50 capture_0 b show ?thesis by blast
qed

subsection \<open>Ending a session\<close>



text \<open>
  C2, on the code: a session with eleven queued chunks is ended, every upload and the
  end-session request succeed. The terminal flush is one call of \<open>processChunkQueue\<close>,
  which takes ten chunks out of the queue; the eleventh is never uploaded and is still
  queued when \<open>endSession\<close> has returned. With seven queued chunks whose uploads all
  fail, the seven are put back, and the queue holds them, in reverse order, afterwards.
\<close>

theorem endSession_leaves_chunks:
  "fst (endSession True all_ok (run (capture 11) initial)) = Inr () \<and>
   chunkQueue (snd (endSession True all_ok (run (capture 11) initial))) = [chunk_at 11] \<and>
   UploadChunkReq ''s1'' (chunk_at 10)
     \<in> set (requests (snd (endSession True all_ok (run (capture 11) initial)))) \<and>
   UploadChunkReq ''s1'' (chunk_at 11)
     \<notin> set (requests (snd (endSession True all_ok (run (capture 11) initial)))) \<and>
   fst (endSession True all_fail (run (capture 7) initial)) = Inr () \<and>
   chunkQueue (snd (endSession True all_fail (run (capture 7) initial))) =
     map chunk_at (rev [1..<8])"
  by code_simp





subsection \<open>Starting a session\<close>

text \<open>
  C6 fails as stated: with session \<open>s1\<close> current, \<open>startSession\<close> answered with \<open>s2\<close>
  returns the new session and makes it the current one.
\<close>

theorem startSession_active_counterexample:
  "currentSession (run (capture 0) initial) = Some session_one \<and>
   fst (startSession ''dev'' (Inr ''s2'') ''t9'' (run (capture 0) initial)) = Inr session_two \<and>
   currentSession (snd (startSession ''dev'' (Inr ''s2'') ''t9'' (run (capture 0) initial)))
     = Some session_two"
  by code_simp

text \<open>
  C6, amended: \<open>startSession\<close> issues its request whether or not a session is current.
  It fails exactly when the request fails, and then changes nothing but the trace of
  requests, so a current session stays current. When the request succeeds, the new
  session takes the place of whatever \<open>currentSession\<close> held, the streaming flag is set
  and the flush timer is armed. \<open>currentSession\<close> holds one session at most.
\<close>

theorem startSession_replaces:
  "startSession dev (Inl e) now st =
     (Inl e, st\<lparr>requests := requests st @ [StartSessionReq dev]\<rparr>) \<and>
   startSession dev (Inr sid) now st =
     (Inr \<lparr>session_id = sid, device_id = dev, started_at = now, is_active = True\<rparr>,
      st\<lparr>requests := requests st @ [StartSessionReq dev],
         currentSession := Some \<lparr>session_id = sid, device_id = dev, started_at = now,
           is_active = True\<rparr>,
         isStreaming := True, uploadInterval := Some 2000\<rparr>)"
  by (simp add: startSession_def startChunkUploader_def Let_def)

subsection \<open>Failed uploads\<close>







subsection \<open>Chunks and sessions\<close>

text \<open>
  C9, on the code: session \<open>s1\<close> is started, eleven chunks are captured and stamped with
  \<open>s1\<close>, the session is ended (ten chunks are flushed, the eleventh stays queued), session
  \<open>s2\<close> is started, and the next flush tick uploads the eleventh chunk in a request
  addressed to \<open>s2\<close>.
\<close>

theorem stale_chunk_uploaded:
  "chunk_session_id (chunk_at 11) = ''s1'' \<and>
   chunkQueue (run (capture 11 @ [EndSession True all_ok]) initial) = [chunk_at 11] \<and>
   currentSession (run (capture 11 @ [EndSession True all_ok]) initial) = None \<and>
   last (requests (run (capture 11 @ [EndSession True all_ok,
       StartSession ''dev'' (Inr ''s2'') ''t9'', FlushTick all_ok]) initial)) =
     UploadChunkReq ''s2'' (chunk_at 11)"
  by code_simp


section \<open>Properties of the connection manager\<close>

text \<open>The definitions that evaluating a concrete run of events unfolds.\<close>

lemmas ws_defs = mounted_def connect_def no_identity_def onopen_def onclose_def onerror_def
  disconnect_def reconnect_timeout_def handleAppStateChange_def scheduleReconnect_def
  sendMessage_def socket_closed_def device_info_def js_or_def parent_def
  RECONNECT_INTERVAL_def MAX_RECONNECT_ATTEMPTS_def Let_def

subsection \<open>Sending while not connected\<close>

lemma sendMessage_fields:
  "wsRef (sendMessage m now accepted st) = wsRef st \<and>
   connectionStatus (sendMessage m now accepted st) = connectionStatus st \<and>
   scheduled (sendMessage m now accepted st) = scheduled st \<and>
   reconnectAttemptsRef (sendMessage m now accepted st) = reconnectAttemptsRef st"
  by (simp add: sendMessage_def Let_def)




text \<open>
  The status and the ready state agree in the runs of the events above, in which every
  socket event is an event of the socket in \<open>wsRef\<close>: the status is \<open>connected\<close> whenever
  that socket is open. Every event keeps this, and it holds when the component is
  mounted. So in these runs a message sent while the status is not \<open>connected\<close> is
  dropped in the same way.
\<close>

lemma open_step:
  assumes "wsRef st = Some OPEN \<longrightarrow> connectionStatus st = connected"
  shows "wsRef (ws_step e st) = Some OPEN \<longrightarrow> connectionStatus (ws_step e st) = connected"
proof (cases e)
  case (Connect created)
  with assms show ?thesis by (simp add: connect_def scheduleReconnect_def Let_def)
next
  case Disconnect
  then show ?thesis by (simp add: disconnect_def)
next
  case (SocketOpen now accepted)
  with assms show ?thesis
    by (simp add: onopen_def Let_def sendMessage_fields split: option.splits)
next
  case (SocketClose code)
  then show ?thesis
    by (cases "wsRef st") (simp_all add: onclose_def socket_closed_def scheduleReconnect_def Let_def)
next
  case SocketError
  then show ?thesis
    by (cases "wsRef st") (simp_all add: onerror_def socket_closed_def)
next
  case (ReconnectTimeout created)
  with assms show ?thesis
    by (simp add: reconnect_timeout_def connect_def scheduleReconnect_def Let_def)
next
  case (SendMessage m now accepted)
  with assms show ?thesis by (simp add: sendMessage_fields)
next
  case (AppStateChange nextAppState created)
  with assms show ?thesis
    by (simp add: handleAppStateChange_def connect_def scheduleReconnect_def no_identity_def Let_def)
qed

lemma open_run:
  "wsRef st = Some OPEN \<longrightarrow> connectionStatus st = connected \<Longrightarrow>
   wsRef (ws_run es st) = Some OPEN \<longrightarrow> connectionStatus (ws_run es st) = connected"
proof (induction es arbitrary: st)
  case Nil
  then show ?case by simp
next
  case (Cons e es)
  show ?case using Cons.IH [OF open_step [OF Cons.prems]] by simp
qed

lemma send_status_not_connected:
  assumes "connectionStatus (ws_run es (mounted u t app)) \<noteq> connected"
  shows "sendMessage m now accepted (ws_run es (mounted u t app)) =
     (ws_run es (mounted u t app))
       \<lparr>warnings := warnings (ws_run es (mounted u t app)) @ [msg_type m]\<rparr>"
proof -
  have "wsRef (mounted u t app) = Some OPEN \<longrightarrow> connectionStatus (mounted u t app) = connected"
    by (simp add: mounted_def)
  from open_run [OF this] assms
  have "wsRef (ws_run es (mounted u t app)) \<noteq> Some OPEN" by blast
  then show ?thesis by (simp add: sendMessage_def)
qed

subsection \<open>Delays of consecutive failed attempts\<close>


lemma onclose_scheduled:
  "scheduled (ws_step (SocketClose code) st) = scheduled st @
     (if code \<noteq> 1000 \<and> reconnectAttemptsRef st < MAX_RECONNECT_ATTEMPTS
      then [min (RECONNECT_INTERVAL * Suc (reconnectAttemptsRef st)) 30000] else []) \<and>
   reconnectAttemptsRef (ws_step (SocketClose code) st) =
     (if code \<noteq> 1000 \<and> reconnectAttemptsRef st < MAX_RECONNECT_ATTEMPTS
      then Suc (reconnectAttemptsRef st) else reconnectAttemptsRef st)"
  by (auto simp: onclose_def socket_closed_def scheduleReconnect_def Let_def)

lemma reconnect_timeout_created:
  "scheduled (ws_step (ReconnectTimeout True) st) = scheduled st \<and>
   reconnectAttemptsRef (ws_step (ReconnectTimeout True) st) = reconnectAttemptsRef st"
  by (simp add: reconnect_timeout_def connect_def)

lemma failed_attempt:
  "scheduled (ws_run [SocketClose code, ReconnectTimeout True] st) = scheduled st @
     (if code \<noteq> 1000 \<and> reconnectAttemptsRef st < MAX_RECONNECT_ATTEMPTS
      then [min (RECONNECT_INTERVAL * Suc (reconnectAttemptsRef st)) 30000] else []) \<and>
   reconnectAttemptsRef (ws_run [SocketClose code, ReconnectTimeout True] st) =
     (if code \<noteq> 1000 \<and> reconnectAttemptsRef st < MAX_RECONNECT_ATTEMPTS
      then Suc (reconnectAttemptsRef st) else reconnectAttemptsRef st)"
  by (simp only: ws_run.simps reconnect_timeout_created onclose_scheduled)

lemma failed_attempts_scheduled:
  assumes "code \<noteq> 1000"
  shows "scheduled (ws_run (failed_attempts n code) st) = scheduled st @
     map (\<lambda>k. min (RECONNECT_INTERVAL * k) 30000)
       [Suc (reconnectAttemptsRef st) ..<
          Suc (min (reconnectAttemptsRef st + n) MAX_RECONNECT_ATTEMPTS)]"
proof (induction n arbitrary: st)
  case 0
  show ?case by simp
next
  case (Suc n)
  let ?a = "reconnectAttemptsRef st"
  let ?st = "ws_run [SocketClose code, ReconnectTimeout True] st"
  have r: "ws_run (failed_attempts (Suc n) code) st = ws_run (failed_attempts n code) ?st"
    by simp
  show ?case
  proof (cases "?a < MAX_RECONNECT_ATTEMPTS")
    case True
    have s: "scheduled ?st = scheduled st @ [min (RECONNECT_INTERVAL * Suc ?a) 30000]"
      and a: "reconnectAttemptsRef ?st = Suc ?a"
      using failed_attempt [of code st] assms True by simp_all
    have lt: "Suc ?a < Suc (min (?a + Suc n) MAX_RECONNECT_ATTEMPTS)"
      using True by simp
    show ?thesis
      unfolding r Suc.IH [of ?st] s a upt_conv_Cons [OF lt]
      by simp
  next
    case False
    have s: "scheduled ?st = scheduled st" and a: "reconnectAttemptsRef ?st = ?a"
      using failed_attempt [of code st] False by simp_all
    show ?thesis
      unfolding r Suc.IH [of ?st] s a using False by simp
  qed
qed

lemma delays_sorted:
  "sorted (map (\<lambda>k. min (RECONNECT_INTERVAL * k) (30000::nat)) [i..<j])"
  by (induction j) (auto simp: sorted_append RECONNECT_INTERVAL_def)

subsection \<open>Evaluation on the scenarios\<close>

lemma failed_attempts_numeral:
  "failed_attempts (numeral k) code =
     SocketClose code # ReconnectTimeout True # failed_attempts (pred_numeral k) code"
  by (simp add: numeral_eq_Suc)

lemma online_eq: "online = \<lparr>isConnected = True, connectionStatus = connected, wsRef = Some OPEN,
     reconnectTimeoutRef = None, reconnectAttemptsRef = 0, appStateRef = active,
     user = Some parent, token = Some ''tok'',
     sent = [\<lparr>msg_type = ''device_info'',
          msg_data = Some [(''device_id'', ''d1''), (''user_id'', ''u1''),
                           (''platform'', ''mobile''), (''app_version'', ''1.0.0'')],
          msg_timestamp = Some 7, msg_device_id = Some ''d1''\<rparr>], scheduled = [], warnings = []\<rparr>"
  by (simp add: online_def ws_defs)


lemma delays_bounded:
  "\<forall>d \<in> set (map (\<lambda>k. min (RECONNECT_INTERVAL * k) (30000::nat)) ks). d \<le> 30000"
  by simp

lemma three_failures:
  "scheduled (ws_run (failed_attempts 3 1006) online) = [5000, 10000, 15000]"
proof -
  have "failed_attempts 3 1006 = [SocketClose 1006, ReconnectTimeout True,
      SocketClose 1006, ReconnectTimeout True, SocketClose 1006, ReconnectTimeout True]"
    by (simp add: failed_attempts_numeral)
  then show ?thesis
    unfolding online_eq by (simp add: ws_defs)
qed

text \<open>
  C4: \<open>scheduleReconnect\<close> increments the attempt counter and sets a timer with the delay
  \<open>min (RECONNECT_INTERVAL * attempts) 30000\<close>, the counter taken after the increment. Over
  \<open>n\<close> connection attempts failing in a row with a close code other than 1000, starting
  with the counter at \<open>a\<close>, the delays scheduled are exactly these values for the attempts
  \<open>a + 1\<close> up to \<open>min (a + n) MAX_RECONNECT_ATTEMPTS\<close>; they are non-decreasing and none
  exceeds 30000. With the interval of 5000, three failures in a row after a successful
  open are scheduled with 5000, 10000 and 15000.
\<close>

theorem reconnect_delays:
  "reconnectAttemptsRef (scheduleReconnect st) = Suc (reconnectAttemptsRef st) \<and>
   reconnectTimeoutRef (scheduleReconnect st) =
     Some (min (RECONNECT_INTERVAL * reconnectAttemptsRef (scheduleReconnect st)) 30000) \<and>
   (code \<noteq> 1000 \<longrightarrow>
     (let delays = map (\<lambda>k. min (RECONNECT_INTERVAL * k) 30000)
            [Suc (reconnectAttemptsRef st) ..<
               Suc (min (reconnectAttemptsRef st + n) MAX_RECONNECT_ATTEMPTS)]
      in scheduled (ws_run (failed_attempts n code) st) = scheduled st @ delays \<and>
         sorted delays \<and> (\<forall>d \<in> set delays. d \<le> 30000))) \<and>
   RECONNECT_INTERVAL = 5000 \<and>
   scheduled (ws_run (failed_attempts 3 1006) online) = [5000, 10000, 15000]"
proof (intro conjI impI)
  show "reconnectAttemptsRef (scheduleReconnect st) = Suc (reconnectAttemptsRef st)"
    by (simp add: scheduleReconnect_def Let_def)
  show "reconnectTimeoutRef (scheduleReconnect st) =
     Some (min (RECONNECT_INTERVAL * reconnectAttemptsRef (scheduleReconnect st)) 30000)"
    by (simp add: scheduleReconnect_def Let_def)
  show "RECONNECT_INTERVAL = 5000" by (simp add: RECONNECT_INTERVAL_def)
  show "scheduled (ws_run (failed_attempts 3 1006) online) = [5000, 10000, 15000]"
    by (rule three_failures)
next
  assume c: "code \<noteq> 1000"
  let ?delays = "map (\<lambda>k. min (RECONNECT_INTERVAL * k) 30000)
            [Suc (reconnectAttemptsRef st) ..<
               Suc (min (reconnectAttemptsRef st + n) MAX_RECONNECT_ATTEMPTS)]"
  have 1: "scheduled (ws_run (failed_attempts n code) st) = scheduled st @ ?delays"
    by (rule failed_attempts_scheduled [OF c])
  have 2: "sorted ?delays" by (rule delays_sorted)
  have 3: "\<forall>d \<in> set ?delays. d \<le> 30000" by (rule delays_bounded)
  show "let delays = ?delays
      in scheduled (ws_run (failed_attempts n code) st) = scheduled st @ delays \<and>
         sorted delays \<and> (\<forall>d \<in> set delays. d \<le> 30000)"
    unfolding Let_def using 1 2 3 by (intro conjI)
qed

lemma ten_attempts:
  "[Suc 0 ..< Suc (min (0 + 12) MAX_RECONNECT_ATTEMPTS)] = [1, 2, 3, 4, 5, 6, 7, 8, 9, 10]"
  by code_simp

theorem reconnect_delays_witness:
  "(1006::nat) \<noteq> 1000 \<and>
   scheduled (ws_run (failed_attempts 12 1006) online) =
     [5000, 10000, 15000, 20000, 25000, 30000, 30000, 30000, 30000, 30000]"
proof -
  have c: "(1006::nat) \<noteq> 1000" by simp
  have "code \<noteq> 1000 \<longrightarrow>
     scheduled (ws_run (failed_attempts 12 code) online) = scheduled online @
       map (\<lambda>k. min (RECONNECT_INTERVAL * k) 30000)
         [Suc (reconnectAttemptsRef online) ..<
            Suc (min (reconnectAttemptsRef online + 12) MAX_RECONNECT_ATTEMPTS)]" for code
    using reconnect_delays [of online code 12] unfolding Let_def by blast
  from this [of 1006] c
  have "scheduled (ws_run (failed_attempts 12 1006) online) = scheduled online @
       map (\<lambda>k. min (RECONNECT_INTERVAL * k) 30000)
         [Suc (reconnectAttemptsRef online) ..<
            Suc (min (reconnectAttemptsRef online + 12) MAX_RECONNECT_ATTEMPTS)]"
    by (rule mp)
  also have "\<dots> = map (\<lambda>k. min (RECONNECT_INTERVAL * k) 30000) [1, 2, 3, 4, 5, 6, 7, 8, 9, 10]"
    unfolding online_eq using ten_attempts by simp
  also have "\<dots> = [5000, 10000, 15000, 20000, 25000, 30000, 30000, 30000, 30000, 30000]"
    by (simp add: RECONNECT_INTERVAL_def)
  finally show ?thesis using c by simp
qed

subsection \<open>When a reconnect is scheduled\<close>











end
